theory Spec2Isabelle
  imports Complex_Main "HOL-Library.Multiset"
begin

section \<open>Numbers and dates of the runtime\<close>

text \<open>
  Conventions of the embedding.

  \<^item> A calendar date (a valid ISO string \<open>YYYY-MM-DD\<close>) is the integer number of days
    since the epoch. A time value is an integer number of milliseconds since the epoch,
    in UTC. The \<open>Date\<close> parsed from an entry's date string is kept as that day number; its
    time value \<open>getTime\<close> is UTC midnight of the day.
  \<^item> The time zone of the runtime is a parameter of the prediction algorithm, because
    \<open>addDays\<close> moves a date in local time (\<open>getDate\<close>, \<open>setDate\<close>) and prints it in UTC
    (\<open>toISOString\<close>). The clock reading \<open>new Date()\<close> is a parameter as well: a time value
    for the prediction, which adds days to it, and the UTC day for the due check, which
    only prints it.
  \<^item> A finite JavaScript number is a real; the three non-finite values that a division
    can produce are constructors of their own, so that \<open>0 / 0\<close> is \<open>NaN\<close> in the model
    as it is in the program. The rounding of binary floating point after each operation
    is not modelled: a confidence of the model is the program's where the operations are
    exact in binary (as on whole numbers of days), and may differ from it by 0.01 where
    the exact value before the last rounding is at or next to a tie.
  \<^item> Day counts stored in a profile or a reminder are integers.
\<close>

datatype jsnum = NaN | PosInf | NegInf | Fin real

text \<open>\<open>a / b\<close> for finite operands.\<close>

definition js_div :: "real \<Rightarrow> real \<Rightarrow> jsnum" where
  "js_div a b =
     (if b = 0 then (if a = 0 then NaN else if 0 < a then PosInf else NegInf)
      else Fin (a / b))"

text \<open>
  \<open>x * c\<close> and \<open>x / c\<close> for a finite constant \<open>c\<close>; the program divides by the
  constant 100 only, and the division is written for \<open>c \<noteq> 0\<close>.
\<close>

fun js_mul_const :: "jsnum \<Rightarrow> real \<Rightarrow> jsnum" where
  "js_mul_const NaN c = NaN"
| "js_mul_const PosInf c = (if 0 < c then PosInf else if c < 0 then NegInf else NaN)"
| "js_mul_const NegInf c = (if 0 < c then NegInf else if c < 0 then PosInf else NaN)"
| "js_mul_const (Fin r) c = Fin (r * c)"

fun js_div_const :: "jsnum \<Rightarrow> real \<Rightarrow> jsnum" where
  "js_div_const NaN c = NaN"
| "js_div_const PosInf c = (if 0 < c then PosInf else NegInf)"
| "js_div_const NegInf c = (if 0 < c then NegInf else PosInf)"
| "js_div_const (Fin r) c = Fin (r / c)"

text \<open>\<open>c - x\<close> for a finite constant \<open>c\<close>.\<close>

fun js_const_sub :: "real \<Rightarrow> jsnum \<Rightarrow> jsnum" where
  "js_const_sub c NaN = NaN"
| "js_const_sub c PosInf = NegInf"
| "js_const_sub c NegInf = PosInf"
| "js_const_sub c (Fin r) = Fin (c - r)"

text \<open>\<open>Math.min(c, x)\<close> and \<open>Math.max(c, x)\<close>: a \<open>NaN\<close> argument gives \<open>NaN\<close>.\<close>

fun Math_min :: "real \<Rightarrow> jsnum \<Rightarrow> jsnum" where
  "Math_min c NaN = NaN"
| "Math_min c PosInf = Fin c"
| "Math_min c NegInf = NegInf"
| "Math_min c (Fin r) = Fin (min c r)"

fun Math_max :: "real \<Rightarrow> jsnum \<Rightarrow> jsnum" where
  "Math_max c NaN = NaN"
| "Math_max c PosInf = PosInf"
| "Math_max c NegInf = Fin c"
| "Math_max c (Fin r) = Fin (max c r)"

text \<open>\<open>Math.round\<close>: the nearest integer, a tie going up.\<close>

definition Math_round :: "real \<Rightarrow> int" where
  "Math_round x = \<lfloor>x + 1 / 2\<rfloor>"

fun js_Math_round :: "jsnum \<Rightarrow> jsnum" where
  "js_Math_round (Fin r) = Fin (of_int (Math_round r))"
| "js_Math_round x = x"

text \<open>
  Two expressions of the program: \<open>Math.max(lo, Math.min(hi, x))\<close>, which passes a
  \<open>NaN\<close> on, and \<open>Math.round(x * 100) / 100\<close>.
\<close>

definition js_clamp :: "jsnum \<Rightarrow> real \<Rightarrow> real \<Rightarrow> jsnum" where
  "js_clamp x lo hi = Math_max lo (Math_min hi x)"

definition round_2dp :: "jsnum \<Rightarrow> jsnum" where
  "round_2dp x = js_div_const (js_Math_round (js_mul_const x 100)) 100"

text \<open>\<open>date.getTime()\<close>: milliseconds since the epoch of a UTC calendar day.\<close>

definition getTime :: "int \<Rightarrow> int" where
  "getTime d = d * (1000 * 60 * 60 * 24)"

text \<open>
  The time zone of the runtime, as the language defines local time: the offset of local
  time from UTC in milliseconds, once as a function of a UTC time value (\<open>LocalTZA(t, true)\<close>)
  and once as a function of a local time value (\<open>LocalTZA(t, false)\<close>). \<open>LocalTime\<close> and
  \<open>UTC_time\<close> are the two conversions; \<open>isoDate\<close> is the date part of \<open>toISOString\<close>, the
  UTC day of a time value.
\<close>

record timezone =
  tza_of_utc :: "int \<Rightarrow> int"
  tza_of_local :: "int \<Rightarrow> int"

definition msPerDay :: int where
  "msPerDay = 86400000"

definition LocalTime :: "timezone \<Rightarrow> int \<Rightarrow> int" where
  "LocalTime tz t = t + tza_of_utc tz t"

definition UTC_time :: "timezone \<Rightarrow> int \<Rightarrow> int" where
  "UTC_time tz t = t - tza_of_local tz t"

definition isoDate :: "int \<Rightarrow> int" where
  "isoDate t = t div msPerDay"

section \<open>The prediction algorithm (shared library)\<close>

record CycleEntry =
  entry_date :: int
  flow_intensity :: "string option"

record UserProfile =
  cycle_length_days :: int
  period_length_days :: int

datatype prediction_source = historical | profile_default | hybrid

record prediction_metadata =
  cycles_analyzed :: nat
  average_cycle_length :: "real option"
  std_deviation :: "real option"

record PredictionResult =
  next_period_start :: int
  next_period_end :: int
  fertility_window_start :: int
  fertility_window_end :: int
  confidence :: jsnum
  source :: prediction_source
  metadata :: prediction_metadata

record cycle_stats =
  average :: real
  stdDev :: real

definition calculateCycleStats :: "real list \<Rightarrow> cycle_stats" where
  "calculateCycleStats cycleLengths =
     (if length cycleLengths = 0 then \<lparr>average = 0, stdDev = 0\<rparr>
      else
        let avg = foldl (\<lambda>sum val. sum + val) 0 cycleLengths / real (length cycleLengths)
        in if length cycleLengths = 1 then \<lparr>average = avg, stdDev = 0\<rparr>
           else
             let variance = foldl (\<lambda>sum val. sum + (val - avg) ^ 2) 0 cycleLengths
                              / real (length cycleLengths - 1)
             in \<lparr>average = avg, stdDev = sqrt variance\<rparr>)"

text \<open>
  \<open>entry.flow_intensity && entry.flow_intensity !== 'none'\<close>: \<open>null\<close> and the empty
  string are falsy.
\<close>

definition hasFlow :: "CycleEntry \<Rightarrow> bool" where
  "hasFlow e =
     (case flow_intensity e of
        None \<Rightarrow> False
      | Some s \<Rightarrow> s \<noteq> [] \<and> s \<noteq> ''none'')"

text \<open>
  The loop of \<open>identifyCycleStarts\<close> over the sorted entries, with its two variables
  \<open>inPeriod\<close> and \<open>cycleStarts\<close>.
\<close>

fun scanEntries :: "CycleEntry list \<Rightarrow> bool \<Rightarrow> int list \<Rightarrow> int list" where
  "scanEntries [] inPeriod cycleStarts = cycleStarts"
| "scanEntries (e # es) inPeriod cycleStarts =
     (if hasFlow e \<and> \<not> inPeriod then scanEntries es True (cycleStarts @ [entry_date e])
      else if \<not> hasFlow e then scanEntries es False cycleStarts
      else scanEntries es inPeriod cycleStarts)"

text \<open>
  \<open>Array.prototype.sort\<close> with the comparator \<open>a.date.getTime() - b.date.getTime()\<close> is
  a stable sort on the date; \<open>sort_key\<close> is the stable sort of the library.
\<close>

definition identifyCycleStarts :: "CycleEntry list \<Rightarrow> int list" where
  "identifyCycleStarts entries =
     (if length entries = 0 then []
      else scanEntries (sort_key (\<lambda>e. getTime (entry_date e)) entries) False [])"

text \<open>
  The cycle starts are the dates of entries, kept as day numbers; \<open>calculateCycleLengths\<close>
  and the anchor \<open>lastCycleStart\<close> of \<open>predictCycle\<close> take their time values. With no
  cycle start the anchor is the clock reading \<open>now\<close>, a time value.
\<close>

fun calculateCycleLengths :: "int list \<Rightarrow> int list" where
  "calculateCycleLengths (a # b # rest) =
     Math_round (of_int (getTime b - getTime a) / (1000 * 60 * 60 * 24))
       # calculateCycleLengths (b # rest)"
| "calculateCycleLengths _ = []"

text \<open>
  \<open>addDays\<close>: \<open>result.setDate(result.getDate() + days)\<close> takes the local time of the
  date, replaces its local day by the day \<open>days\<close> later, keeps the local time within the
  day, and converts back to UTC; \<open>toISOString().split('T')[0]\<close> is the UTC day of the
  result.
\<close>

definition addDays :: "timezone \<Rightarrow> int \<Rightarrow> int \<Rightarrow> int" where
  "addDays tz date days =
     (let t = LocalTime tz date;
          newDate = (t div msPerDay + days) * msPerDay + t mod msPerDay
      in isoDate (UTC_time tz newDate))"

definition predictCycle ::
  "timezone \<Rightarrow> CycleEntry list \<Rightarrow> UserProfile \<Rightarrow> nat \<Rightarrow> int \<Rightarrow> PredictionResult" where
  "predictCycle tz cycleEntries profile maxEntriesToAnalyze now =
     (let recentEntries = take maxEntriesToAnalyze cycleEntries;
          cycleStarts = identifyCycleStarts recentEntries;
          (predictedCycleLength, conf, src, meta) =
            (if length cycleStarts \<ge> 2 then
               let cycleLengths = calculateCycleLengths cycleStarts;
                   stats = calculateCycleStats (map of_int cycleLengths);
                   meta = \<lparr>cycles_analyzed = length cycleLengths,
                           average_cycle_length = Some (average stats),
                           std_deviation = Some (stdDev stats)\<rparr>
               in if length cycleLengths \<ge> 3 then
                    (Math_round (average stats),
                     Math_max 0.5 (Math_min 0.95
                       (js_const_sub 1 (js_mul_const (js_div (stdDev stats) (average stats)) 0.5))),
                     historical, meta)
                  else
                    (Math_round (average stats),
                     Fin (0.6 + real (length cycleLengths) * 0.1),
                     hybrid, meta)
             else
               (cycle_length_days profile, Fin 0.5, profile_default,
                \<lparr>cycles_analyzed = 0, average_cycle_length = None, std_deviation = None\<rparr>));
          lastCycleStart =
            (if length cycleStarts > 0 then getTime (last cycleStarts) else now);
          nextPeriodStart = addDays tz lastCycleStart predictedCycleLength;
          nextPeriodEnd =
            addDays tz lastCycleStart (predictedCycleLength + period_length_days profile - 1);
          ovulationDay = Math_round (of_int predictedCycleLength / 2);
          fertilityWindowStart = addDays tz lastCycleStart (ovulationDay - 5);
          fertilityWindowEnd = addDays tz lastCycleStart (ovulationDay + 1)
      in \<lparr>next_period_start = nextPeriodStart,
          next_period_end = nextPeriodEnd,
          fertility_window_start = fertilityWindowStart,
          fertility_window_end = fertilityWindowEnd,
          confidence = js_div_const (js_Math_round (js_mul_const conf 100)) 100,
          source = src,
          metadata = meta\<rparr>)"

section \<open>The prediction algorithm (serverless function)\<close>

text \<open>
  The function \<open>predict-cycle\<close> declares the same interfaces and carries its own
  copy of every helper and of \<open>predictCycle\<close>. The copies are embedded from the
  function's file, under the names of the source with the suffix \<open>_fn\<close>.
\<close>

definition calculateCycleStats_fn :: "real list \<Rightarrow> cycle_stats" where
  "calculateCycleStats_fn cycleLengths =
     (if length cycleLengths = 0 then \<lparr>average = 0, stdDev = 0\<rparr>
      else
        let avg = foldl (\<lambda>sum val. sum + val) 0 cycleLengths / real (length cycleLengths)
        in if length cycleLengths = 1 then \<lparr>average = avg, stdDev = 0\<rparr>
           else
             let variance = foldl (\<lambda>sum val. sum + (val - avg) ^ 2) 0 cycleLengths
                              / real (length cycleLengths - 1)
             in \<lparr>average = avg, stdDev = sqrt variance\<rparr>)"

definition hasFlow_fn :: "CycleEntry \<Rightarrow> bool" where
  "hasFlow_fn e =
     (case flow_intensity e of
        None \<Rightarrow> False
      | Some s \<Rightarrow> s \<noteq> [] \<and> s \<noteq> ''none'')"

fun scanEntries_fn :: "CycleEntry list \<Rightarrow> bool \<Rightarrow> int list \<Rightarrow> int list" where
  "scanEntries_fn [] inPeriod cycleStarts = cycleStarts"
| "scanEntries_fn (e # es) inPeriod cycleStarts =
     (if hasFlow_fn e \<and> \<not> inPeriod
      then scanEntries_fn es True (cycleStarts @ [entry_date e])
      else if \<not> hasFlow_fn e then scanEntries_fn es False cycleStarts
      else scanEntries_fn es inPeriod cycleStarts)"

definition identifyCycleStarts_fn :: "CycleEntry list \<Rightarrow> int list" where
  "identifyCycleStarts_fn entries =
     (if length entries = 0 then []
      else scanEntries_fn (sort_key (\<lambda>e. getTime (entry_date e)) entries) False [])"

fun calculateCycleLengths_fn :: "int list \<Rightarrow> int list" where
  "calculateCycleLengths_fn (a # b # rest) =
     Math_round (of_int (getTime b - getTime a) / (1000 * 60 * 60 * 24))
       # calculateCycleLengths_fn (b # rest)"
| "calculateCycleLengths_fn _ = []"

definition addDays_fn :: "timezone \<Rightarrow> int \<Rightarrow> int \<Rightarrow> int" where
  "addDays_fn tz date days =
     (let t = LocalTime tz date;
          newDate = (t div msPerDay + days) * msPerDay + t mod msPerDay
      in isoDate (UTC_time tz newDate))"

definition predictCycle_fn ::
  "timezone \<Rightarrow> CycleEntry list \<Rightarrow> UserProfile \<Rightarrow> nat \<Rightarrow> int \<Rightarrow> PredictionResult" where
  "predictCycle_fn tz cycleEntries profile maxEntriesToAnalyze now =
     (let recentEntries = take maxEntriesToAnalyze cycleEntries;
          cycleStarts = identifyCycleStarts_fn recentEntries;
          (predictedCycleLength, conf, src, meta) =
            (if length cycleStarts \<ge> 2 then
               let cycleLengths = calculateCycleLengths_fn cycleStarts;
                   stats = calculateCycleStats_fn (map of_int cycleLengths);
                   meta = \<lparr>cycles_analyzed = length cycleLengths,
                           average_cycle_length = Some (average stats),
                           std_deviation = Some (stdDev stats)\<rparr>
               in if length cycleLengths \<ge> 3 then
                    (Math_round (average stats),
                     Math_max 0.5 (Math_min 0.95
                       (js_const_sub 1 (js_mul_const (js_div (stdDev stats) (average stats)) 0.5))),
                     historical, meta)
                  else
                    (Math_round (average stats),
                     Fin (0.6 + real (length cycleLengths) * 0.1),
                     hybrid, meta)
             else
               (cycle_length_days profile, Fin 0.5, profile_default,
                \<lparr>cycles_analyzed = 0, average_cycle_length = None, std_deviation = None\<rparr>));
          lastCycleStart =
            (if length cycleStarts > 0 then getTime (last cycleStarts) else now);
          nextPeriodStart = addDays_fn tz lastCycleStart predictedCycleLength;
          nextPeriodEnd =
            addDays_fn tz lastCycleStart (predictedCycleLength + period_length_days profile - 1);
          ovulationDay = Math_round (of_int predictedCycleLength / 2);
          fertilityWindowStart = addDays_fn tz lastCycleStart (ovulationDay - 5);
          fertilityWindowEnd = addDays_fn tz lastCycleStart (ovulationDay + 1)
      in \<lparr>next_period_start = nextPeriodStart,
          next_period_end = nextPeriodEnd,
          fertility_window_start = fertilityWindowStart,
          fertility_window_end = fertilityWindowEnd,
          confidence = js_div_const (js_Math_round (js_mul_const conf 100)) 100,
          source = src,
          metadata = meta\<rparr>)"

section \<open>Predictions for several cycles\<close>

text \<open>
  The loop of \<open>predictMultipleCycles\<close> with its variables \<open>currentEntries\<close> and
  \<open>predictions\<close>; the first argument counts the iterations that remain. Every call of
  \<open>predictCycle\<close> takes the default of 90 entries. The clock is read by the first call at
  most (later logs hold a synthetic entry with flow, hence a cycle start), so one reading
  \<open>now\<close> is passed to all calls. The first argument is the time zone of the runtime.
\<close>

fun predictMultipleLoop ::
  "timezone \<Rightarrow> nat \<Rightarrow> CycleEntry list \<Rightarrow> PredictionResult list \<Rightarrow> UserProfile \<Rightarrow> int
     \<Rightarrow> PredictionResult list" where
  "predictMultipleLoop tz 0 currentEntries predictions profile now = predictions"
| "predictMultipleLoop tz (Suc k) currentEntries predictions profile now =
     (let prediction = predictCycle tz currentEntries profile 90 now;
          syntheticEntry = \<lparr>entry_date = next_period_start prediction,
                            flow_intensity = Some ''medium''\<rparr>
      in predictMultipleLoop tz k (syntheticEntry # currentEntries)
           (predictions @ [prediction]) profile now)"

definition predictMultipleCycles ::
  "timezone \<Rightarrow> CycleEntry list \<Rightarrow> UserProfile \<Rightarrow> nat \<Rightarrow> int \<Rightarrow> PredictionResult list" where
  "predictMultipleCycles tz cycleEntries profile numberOfCycles now =
     predictMultipleLoop tz numberOfCycles cycleEntries [] profile now"

section \<open>Reminders (serverless function)\<close>

text \<open>
  The records of \<open>send-reminders\<close>. Field names that the prediction result already
  uses carry a prime. The stored fertility dates are optional strings in the source; a
  missing or empty one is \<open>None\<close>.
\<close>

record ScheduleConfig =
  time :: "string option"
  days_before :: "int option"
  frequency :: "string option"
  custom_message :: "string option"

record Reminder =
  id' :: string
  user_id :: string
  reminder_type :: string
  schedule_config :: ScheduleConfig
  enabled :: bool

record Prediction_metadata =
  fertility_window_start' :: "int option"
  fertility_window_end' :: "int option"

record Prediction =
  cycle_start_date :: int
  cycle_end_date :: int
  metadata' :: Prediction_metadata

text \<open>
  \<open>x || d\<close> on an optional number and on an optional string: the default stands in for
  a missing value and for a falsy one (\<open>0\<close>, the empty string).
\<close>

definition num_or :: "int option \<Rightarrow> int \<Rightarrow> int" where
  "num_or x d = (case x of None \<Rightarrow> d | Some n \<Rightarrow> if n = 0 then d else n)"

definition str_or :: "string option \<Rightarrow> string \<Rightarrow> string" where
  "str_or x d = (case x of None \<Rightarrow> d | Some s \<Rightarrow> if s = [] then d else s)"

text \<open>
  \<open>today\<close> is the date part of \<open>new Date().toISOString()\<close>. The due check exists in
  the serverless function only, whose runtime is in UTC: there \<open>setDate(getDate() - n)\<close>
  moves the day number by \<open>n\<close>.
\<close>

definition shouldSendReminder :: "Reminder \<Rightarrow> Prediction option \<Rightarrow> int \<Rightarrow> bool" where
  "shouldSendReminder reminder prediction today =
     (if \<not> enabled reminder then False
      else if (reminder_type reminder = ''medication'' \<or> reminder_type reminder = ''hydration'')
              \<and> str_or (frequency (schedule_config reminder)) ''daily'' = ''daily''
      then True
      else case prediction of
        None \<Rightarrow> False
      | Some p \<Rightarrow>
          let daysBefore = num_or (days_before (schedule_config reminder)) 3
          in if reminder_type reminder = ''period_start''
             then cycle_start_date p - daysBefore = today
             else if reminder_type reminder = ''period_end''
             then cycle_end_date p - daysBefore = today
             else if reminder_type reminder = ''fertile_window''
             then (case fertility_window_start' (metadata' p) of
                     None \<Rightarrow> False
                   | Some fertilityStart \<Rightarrow> fertilityStart - daysBefore = today)
             else False)"

text \<open>
  The message composer. The first argument renders a day number as the ISO date string
  that the stored prediction holds. \<open>defaultMessage\<close> is the \<open>switch\<close> on the reminder
  type; the test \<open>if (custom_message)\<close> before it takes a missing and an empty message
  as absent.
\<close>

definition defaultMessage ::
  "(int \<Rightarrow> string) \<Rightarrow> Reminder \<Rightarrow> Prediction option \<Rightarrow> string" where
  "defaultMessage render reminder prediction =
     (if reminder_type reminder = ''period_start''
      then (case prediction of
              Some p \<Rightarrow> ''Your period is expected to start around '' @ render (cycle_start_date p)
                          @ ''. Stay prepared!''
            | None \<Rightarrow> ''Period reminder'')
      else if reminder_type reminder = ''period_end''
      then (case prediction of
              Some p \<Rightarrow> ''Your period is expected to end around '' @ render (cycle_end_date p) @ ''.''
            | None \<Rightarrow> ''Period end reminder'')
      else if reminder_type reminder = ''fertile_window''
      then (case prediction of
              Some p \<Rightarrow>
                (case fertility_window_start' (metadata' p) of
                   Some f \<Rightarrow> ''Your fertile window starts around '' @ render f @ ''.''
                 | None \<Rightarrow> ''Fertility window reminder'')
            | None \<Rightarrow> ''Fertility window reminder'')
      else if reminder_type reminder = ''medication''
      then ''Time to take your medication.''
      else if reminder_type reminder = ''hydration''
      then ''Remember to stay hydrated!''
      else ''Reminder notification'')"

definition generateReminderMessage ::
  "(int \<Rightarrow> string) \<Rightarrow> Reminder \<Rightarrow> Prediction option \<Rightarrow> string" where
  "generateReminderMessage render reminder prediction =
     (case custom_message (schedule_config reminder) of
        Some s \<Rightarrow> if s \<noteq> [] then s else defaultMessage render reminder prediction
      | None \<Rightarrow> defaultMessage render reminder prediction)"

section \<open>Notions of the specification\<close>

text \<open>
  The clamp of the specification: a number between the two bounds, whatever its argument.
\<close>

definition clamp :: "real \<Rightarrow> real \<Rightarrow> real \<Rightarrow> real" where
  "clamp x lo hi = max lo (min hi x)"

text \<open>
  The bound on a confidence, and the comparisons \<open><\<close> and \<open>\<le>\<close> of the runtime: every
  comparison with \<open>NaN\<close> is false.
\<close>

definition confidence_in_bounds :: "jsnum \<Rightarrow> bool" where
  "confidence_in_bounds c = (case c of Fin r \<Rightarrow> 0.5 \<le> r \<and> r \<le> 0.95 | _ \<Rightarrow> False)"

fun js_less :: "jsnum \<Rightarrow> jsnum \<Rightarrow> bool" where
  "js_less NaN y = False"
| "js_less x NaN = False"
| "js_less x NegInf = False"
| "js_less PosInf y = False"
| "js_less NegInf y = True"
| "js_less (Fin a) PosInf = True"
| "js_less (Fin a) (Fin b) = (a < b)"

fun js_le :: "jsnum \<Rightarrow> jsnum \<Rightarrow> bool" where
  "js_le NaN y = False"
| "js_le x NaN = False"
| "js_le NegInf y = True"
| "js_le x PosInf = True"
| "js_le x NegInf = False"
| "js_le PosInf y = False"
| "js_le (Fin a) (Fin b) = (a \<le> b)"

text \<open>
  The ratio \<open>stats.stdDev / stats.average\<close> that \<open>predictCycle\<close> computes for a log, and
  the confidence that the \<open>historical\<close> branch returns for a finite ratio.
\<close>

definition deviation_ratio :: "CycleEntry list \<Rightarrow> nat \<Rightarrow> jsnum" where
  "deviation_ratio cycleEntries maxEntriesToAnalyze =
     (let stats = calculateCycleStats (map of_int (calculateCycleLengths
                    (identifyCycleStarts (take maxEntriesToAnalyze cycleEntries))))
      in js_div (stdDev stats) (average stats))"

definition confidence_of_ratio :: "real \<Rightarrow> real" where
  "confidence_of_ratio r =
     real_of_int (Math_round (max (1 / 2) (min (19 / 20) (1 - r / 2)) * 100)) / 100"

text \<open>
  The log that \<open>predictMultipleCycles\<close> hands to its call number \<open>i\<close>, given the
  predictions \<open>ps\<close> it returns: the caller's log, with one synthetic medium-flow entry
  per earlier prediction, dated at that prediction's \<open>next_period_start\<close>, in front.
\<close>

fun entriesAt :: "CycleEntry list \<Rightarrow> PredictionResult list \<Rightarrow> nat \<Rightarrow> CycleEntry list" where
  "entriesAt es ps 0 = es"
| "entriesAt es ps (Suc i) =
     \<lparr>entry_date = next_period_start (ps ! i), flow_intensity = Some ''medium''\<rparr>
       # entriesAt es ps i"

text \<open>The list of predictions that \<open>k\<close> iterations of the loop append, starting from a log.\<close>

fun predictionsFrom ::
  "timezone \<Rightarrow> nat \<Rightarrow> CycleEntry list \<Rightarrow> UserProfile \<Rightarrow> int
     \<Rightarrow> PredictionResult list" where
  "predictionsFrom tz 0 es p now = []"
| "predictionsFrom tz (Suc k) es p now =
     predictCycle tz es p 90 now
       # predictionsFrom tz k
           (\<lparr>entry_date = next_period_start (predictCycle tz es p 90 now),
             flow_intensity = Some ''medium''\<rparr> # es) p now"

section \<open>Sample data\<close>

text \<open>
  A day with medium flow and a day logged with no flow; a profile; logs with two, three
  and four cycle starts 28 days apart, a log with cycle lengths 27, 28, 29, one with cycle
  lengths 24, 28, 32, and a log whose seven entries share one date.
\<close>

definition flow_on :: "int \<Rightarrow> CycleEntry" where
  "flow_on d = \<lparr>entry_date = d, flow_intensity = Some ''medium''\<rparr>"

definition none_on :: "int \<Rightarrow> CycleEntry" where
  "none_on d = \<lparr>entry_date = d, flow_intensity = Some ''none''\<rparr>"

definition profile_28_5 :: UserProfile where
  "profile_28_5 = \<lparr>cycle_length_days = 28, period_length_days = 5\<rparr>"

definition log_two_starts :: "CycleEntry list" where
  "log_two_starts = [flow_on 0, none_on 1, flow_on 28]"

definition log_three_starts :: "CycleEntry list" where
  "log_three_starts = [flow_on 0, none_on 1, flow_on 28, none_on 29, flow_on 56]"

definition log_four_starts :: "CycleEntry list" where
  "log_four_starts =
     [flow_on 0, none_on 1, flow_on 28, none_on 29, flow_on 56, none_on 57, flow_on 84]"

definition log_near_regular :: "CycleEntry list" where
  "log_near_regular =
     [flow_on 0, none_on 1, flow_on 27, none_on 28, flow_on 55, none_on 56, flow_on 84]"

definition log_irregular :: "CycleEntry list" where
  "log_irregular =
     [flow_on 0, none_on 1, flow_on 24, none_on 25, flow_on 52, none_on 53, flow_on 84]"

definition log_same_day :: "CycleEntry list" where
  "log_same_day =
     [flow_on 0, none_on 0, flow_on 0, none_on 0, flow_on 0, none_on 0, flow_on 0]"

text \<open>
  Time zones: UTC, any zone of a fixed offset, and New York in the year 2024, five hours
  behind UTC, and four hours behind from 10 March, 2:00 local time (day 19792, 7:00 UTC),
  to 3 November, 2:00 local time (day 20030, 6:00 UTC). A local time that a change of the
  offset skips or repeats is read with the offset before the change. Two logs of one
  entry with flow, on 9 February 2024 (day 19762) and on 27 February 2024 (day 19780).
\<close>

definition fixed_zone :: "int \<Rightarrow> timezone" where
  "fixed_zone offset = \<lparr>tza_of_utc = (\<lambda>t. offset), tza_of_local = (\<lambda>t. offset)\<rparr>"

definition utc :: timezone where
  "utc = fixed_zone 0"

definition new_york_2024 :: timezone where
  "new_york_2024 =
     \<lparr>tza_of_utc = (\<lambda>t. if 19792 * msPerDay + 7 * 3600000 \<le> t
                               \<and> t < 20030 * msPerDay + 6 * 3600000
                            then - 4 * 3600000 else - 5 * 3600000),
      tza_of_local = (\<lambda>t. if 19792 * msPerDay + 3 * 3600000 \<le> t
                                 \<and> t < 20030 * msPerDay + 2 * 3600000
                              then - 4 * 3600000 else - 5 * 3600000)\<rparr>"

definition log_9_february :: "CycleEntry list" where
  "log_9_february = [flow_on 19762]"

definition log_27_february :: "CycleEntry list" where
  "log_27_february = [flow_on 19780]"

definition reminder_of :: "string \<Rightarrow> int option \<Rightarrow> string option \<Rightarrow> Reminder" where
  "reminder_of ty db msg =
     \<lparr>id' = ''r1'', user_id = ''u1'', reminder_type = ty,
      schedule_config = \<lparr>time = Some ''09:00'', days_before = db, frequency = None,
                         custom_message = msg\<rparr>,
      enabled = True\<rparr>"

definition prediction_on :: "int \<Rightarrow> int \<Rightarrow> Prediction" where
  "prediction_on s e =
     \<lparr>cycle_start_date = s, cycle_end_date = e,
      metadata' = \<lparr>fertility_window_start' = None, fertility_window_end' = None\<rparr>\<rparr>"

section \<open>Facts about the helpers\<close>

lemma length_calculateCycleLengths: "length (calculateCycleLengths s) = length s - 1"
  by (induction s rule: calculateCycleLengths.induct) simp_all

lemma Math_round_of_int: "Math_round (of_int k) = k"
  unfolding Math_round_def by linarith

lemma ms_to_days:
  "real_of_int (getTime b - getTime a) / (1000 * 60 * 60 * 24) = of_int (b - a)"
  unfolding getTime_def by (simp add: diff_divide_distrib)

text \<open>A cycle length is the whole number of days between two consecutive cycle starts.\<close>

lemma calculateCycleLengths_days:
  "calculateCycleLengths (a # b # rest) = (b - a) # calculateCycleLengths (b # rest)"
  using ms_to_days [of b a] Math_round_of_int [of "b - a"] by (simp del: of_int_diff)

text \<open>Sorting on the time stamp is sorting on the day; a sorted log is scanned as it is.\<close>

lemma sort_key_getTime:
  "sort_key (\<lambda>e. getTime (entry_date e)) xs = sort_key entry_date xs"
proof -
  have ins: "insort_key (\<lambda>e. getTime (entry_date e)) x ys = insort_key entry_date x ys" for x ys
    by (induction ys) (simp_all add: getTime_def)
  show ?thesis
    by (induction xs) (simp_all add: ins)
qed

lemma identifyCycleStarts_sorted:
  assumes "sorted (map entry_date xs)"
  shows "identifyCycleStarts xs = scanEntries xs False []"
proof (cases "xs = []")
  case True
  then show ?thesis by (simp add: identifyCycleStarts_def)
next
  case False
  then show ?thesis
    unfolding identifyCycleStarts_def sort_key_getTime sort_key_id_if_sorted [OF assms]
    by simp
qed

lemma filter_eq_distinct:
  "distinct zs \<Longrightarrow> k \<in> set zs \<Longrightarrow> filter (\<lambda>x. k = x) zs = [k]"
  by (induction zs) (auto simp: filter_empty_conv)

lemma sort_key_permutation:
  assumes perm: "mset ys = mset xs" and dist: "distinct (map entry_date xs)"
  shows "sort_key entry_date ys = sort_key entry_date xs"
proof (rule properties_for_sort_key)
  show "mset (sort_key entry_date xs) = mset ys"
    using perm by simp
  show "sorted (map entry_date (sort_key entry_date xs))"
    by simp
  fix k assume "k \<in> set (sort_key entry_date xs)"
  then have kx: "k \<in> set xs" by simp
  have inj: "inj_on entry_date (set xs)" and dx: "distinct xs"
    using dist by (simp_all add: distinct_map)
  have dy: "distinct ys"
    using dx perm by (metis mset_eq_imp_distinct_iff)
  have sy: "set ys = set xs"
    using perm by (rule mset_eq_setD)
  have eq: "(\<lambda>x. entry_date k = entry_date x) z = (\<lambda>x. k = x) z" if "z \<in> set xs" for z
    using inj kx that by (auto dest: inj_onD)
  have "filter (\<lambda>x. entry_date k = entry_date x) (sort_key entry_date xs)
          = filter (\<lambda>x. k = x) (sort_key entry_date xs)"
    by (rule filter_cong) (simp_all add: eq)
  also have "\<dots> = [k]"
    using kx dx by (simp add: filter_eq_distinct)
  finally have l: "filter (\<lambda>x. entry_date k = entry_date x) (sort_key entry_date xs) = [k]" .
  have "filter (\<lambda>x. entry_date k = entry_date x) ys = filter (\<lambda>x. k = x) ys"
    by (rule filter_cong) (simp_all add: eq sy)
  also have "\<dots> = [k]"
    using kx dy sy by (simp add: filter_eq_distinct)
  finally show "filter (\<lambda>x. entry_date k = entry_date x) (sort_key entry_date xs)
                  = filter (\<lambda>x. entry_date k = entry_date x) ys"
    using l by simp
qed

text \<open>The confidence of each branch.\<close>

lemma confidence_historical:
  assumes "3 \<le> length (calculateCycleLengths (identifyCycleStarts (take m es)))"
  shows "confidence (predictCycle tz es p m now) =
           round_2dp (js_clamp (js_const_sub 1 (js_mul_const (deviation_ratio es m) 0.5)) 0.5 0.95)"
proof -
  have "2 \<le> length (identifyCycleStarts (take m es))"
    using assms by (simp add: length_calculateCycleLengths)
  then show ?thesis
    using assms
    by (simp add: predictCycle_def Let_def round_2dp_def js_clamp_def deviation_ratio_def)
qed

lemma confidence_few_samples:
  assumes "length (calculateCycleLengths (identifyCycleStarts (take m es))) < 3"
  shows "confidence (predictCycle tz es p m now) = Fin 0.5
       \<or> confidence (predictCycle tz es p m now) = Fin 0.7
       \<or> confidence (predictCycle tz es p m now) = Fin 0.8"
proof -
  let ?n = "length (calculateCycleLengths (identifyCycleStarts (take m es)))"
  have "?n = 0 \<or> ?n = 1 \<or> ?n = 2" using assms by arith
  moreover have "2 \<le> length (identifyCycleStarts (take m es)) \<Longrightarrow> ?n \<noteq> 0"
    by (simp add: length_calculateCycleLengths)
  ultimately show ?thesis
    by (auto simp add: predictCycle_def Let_def Math_round_def)
qed

lemma clamped_Fin:
  "round_2dp (js_clamp (js_const_sub 1 (js_mul_const (Fin r) 0.5)) 0.5 0.95)
     = Fin (confidence_of_ratio r)"
  by (simp add: round_2dp_def js_clamp_def confidence_of_ratio_def)

lemma clamped_PosInf:
  "round_2dp (js_clamp (js_const_sub 1 (js_mul_const PosInf 0.5)) 0.5 0.95) = Fin (1 / 2)"
  by (simp add: round_2dp_def js_clamp_def Math_round_def)

lemma clamped_NegInf:
  "round_2dp (js_clamp (js_const_sub 1 (js_mul_const NegInf 0.5)) 0.5 0.95) = Fin (19 / 20)"
  by (simp add: round_2dp_def js_clamp_def Math_round_def)

lemma clamped_NaN:
  "round_2dp (js_clamp (js_const_sub 1 (js_mul_const NaN 0.5)) 0.5 0.95) = NaN"
  by (simp add: round_2dp_def js_clamp_def)

lemma confidence_of_ratio_bounds:
  "1 / 2 \<le> confidence_of_ratio r" "confidence_of_ratio r \<le> 19 / 20"
proof -
  define c :: real where "c = max (1 / 2) (min (19 / 20) (1 - r / 2))"
  have lo: "1 / 2 \<le> c" and hi: "c \<le> 19 / 20"
    unfolding c_def by linarith+
  have "real_of_int 50 \<le> c * 100 + 1 / 2" using lo by simp
  then have "50 \<le> \<lfloor>c * 100 + 1 / 2\<rfloor>" by (simp only: le_floor_iff)
  then have "real_of_int 50 \<le> real_of_int \<lfloor>c * 100 + 1 / 2\<rfloor>" by (simp only: of_int_le_iff)
  then show "1 / 2 \<le> confidence_of_ratio r"
    unfolding confidence_of_ratio_def Math_round_def c_def[symmetric] by simp
  have "c * 100 + 1 / 2 < real_of_int 95 + 1" using hi by simp
  then have "\<lfloor>c * 100 + 1 / 2\<rfloor> \<le> 95" by (simp only: floor_le_iff)
  then have "real_of_int \<lfloor>c * 100 + 1 / 2\<rfloor> \<le> real_of_int 95" by (simp only: of_int_le_iff)
  then show "confidence_of_ratio r \<le> 19 / 20"
    unfolding confidence_of_ratio_def Math_round_def c_def[symmetric] by simp
qed

lemma confidence_of_ratio_antimono:
  assumes "a \<le> b"
  shows "confidence_of_ratio b \<le> confidence_of_ratio a"
proof -
  have "max (1 / 2) (min (19 / 20) (1 - b / 2)) \<le> max (1 / 2) (min (19 / 20) (1 - a / 2))"
    using assms by linarith
  then have "max (1 / 2) (min (19 / 20) (1 - b / 2)) * 100 + 1 / 2
      \<le> max (1 / 2) (min (19 / 20) (1 - a / 2)) * 100 + 1 / 2"
    by (intro add_right_mono mult_right_mono) simp_all
  then have "Math_round (max (1 / 2) (min (19 / 20) (1 - b / 2)) * 100)
      \<le> Math_round (max (1 / 2) (min (19 / 20) (1 - a / 2)) * 100)"
    unfolding Math_round_def by (rule floor_mono)
  then show ?thesis
    unfolding confidence_of_ratio_def by (simp add: divide_right_mono)
qed

lemma clamped_in_bounds:
  "x \<noteq> NaN \<Longrightarrow>
     confidence_in_bounds (round_2dp (js_clamp (js_const_sub 1 (js_mul_const x 0.5)) 0.5 0.95))"
  using confidence_of_ratio_bounds
  by (cases x)
     (simp_all only: clamped_Fin clamped_PosInf clamped_NegInf confidence_in_bounds_def
        jsnum.case, simp_all)

text \<open>
  Away from the quotient \<open>0 / 0\<close> the confidence is within its bounds: with fewer than
  three samples, and whenever the ratio of the \<open>historical\<close> branch is a number.
\<close>

lemma confidence_bounds_nondegenerate:
  assumes "length (calculateCycleLengths (identifyCycleStarts (take m es))) < 3
           \<or> deviation_ratio es m \<noteq> NaN"
  shows "confidence_in_bounds (confidence (predictCycle tz es p m now))"
proof (cases "length (calculateCycleLengths (identifyCycleStarts (take m es))) < 3")
  case True
  from confidence_few_samples [OF this, of tz p now] show ?thesis
    by (auto simp: confidence_in_bounds_def)
next
  case False
  then have n3: "3 \<le> length (calculateCycleLengths (identifyCycleStarts (take m es)))"
    and "deviation_ratio es m \<noteq> NaN"
    using assms by auto
  from clamped_in_bounds [OF this(2)] show ?thesis
    by (simp only: confidence_historical [OF n3])
qed

lemma clamped_antimono:
  assumes "js_less y x"
  shows "js_le (round_2dp (js_clamp (js_const_sub 1 (js_mul_const x 0.5)) 0.5 0.95))
               (round_2dp (js_clamp (js_const_sub 1 (js_mul_const y 0.5)) 0.5 0.95))"
proof (cases x; cases y)
  fix a b assume xy: "x = Fin a" "y = Fin b"
  with assms have "b \<le> a" by simp
  from confidence_of_ratio_antimono [OF this] xy show ?thesis
    by (simp only: clamped_Fin js_le.simps)
next
  fix a assume xy: "x = PosInf" "y = Fin a"
  from confidence_of_ratio_bounds(1) [of a] xy
  show ?thesis by (simp only: clamped_Fin clamped_PosInf js_le.simps)
next
  fix a assume xy: "x = Fin a" "y = NegInf"
  from confidence_of_ratio_bounds(2) [of a] xy
  show ?thesis by (simp only: clamped_Fin clamped_NegInf js_le.simps)
next
  assume xy: "x = PosInf" "y = NegInf"
  then show ?thesis by (simp only: clamped_PosInf clamped_NegInf js_le.simps)
qed (use assms in simp_all)

section \<open>The sample data, evaluated\<close>

lemma hasFlow_examples [simp]: "hasFlow (flow_on d)" "\<not> hasFlow (none_on d)"
  by (simp_all add: hasFlow_def flow_on_def none_on_def)

lemma entry_date_examples [simp]: "entry_date (flow_on d) = d" "entry_date (none_on d) = d"
  by (simp_all add: flow_on_def none_on_def)

lemma starts_two: "identifyCycleStarts (take 90 log_two_starts) = [0, 28]"
  by (simp add: identifyCycleStarts_def log_two_starts_def getTime_def)

lemma starts_three: "identifyCycleStarts (take 90 log_three_starts) = [0, 28, 56]"
  by (simp add: identifyCycleStarts_def log_three_starts_def getTime_def)

lemma starts_four: "identifyCycleStarts (take 90 log_four_starts) = [0, 28, 56, 84]"
  by (simp add: identifyCycleStarts_def log_four_starts_def getTime_def)

lemma starts_near_regular: "identifyCycleStarts (take 90 log_near_regular) = [0, 27, 55, 84]"
  by (simp add: identifyCycleStarts_def log_near_regular_def getTime_def)

lemma starts_irregular: "identifyCycleStarts (take 90 log_irregular) = [0, 24, 52, 84]"
  by (simp add: identifyCycleStarts_def log_irregular_def getTime_def)

lemma starts_same_day: "identifyCycleStarts (take 90 log_same_day) = [0, 0, 0, 0]"
  by (simp add: identifyCycleStarts_def log_same_day_def getTime_def)

lemma lens_two: "calculateCycleLengths [0, 28] = [28]"
  by (simp add: calculateCycleLengths_days del: calculateCycleLengths.simps(1))

lemma lens_three: "calculateCycleLengths [0, 28, 56] = [28, 28]"
  by (simp add: calculateCycleLengths_days del: calculateCycleLengths.simps(1))

lemma lens_four: "calculateCycleLengths [0, 28, 56, 84] = [28, 28, 28]"
  by (simp add: calculateCycleLengths_days del: calculateCycleLengths.simps(1))

lemma lens_near_regular: "calculateCycleLengths [0, 27, 55, 84] = [27, 28, 29]"
  by (simp add: calculateCycleLengths_days del: calculateCycleLengths.simps(1))

lemma lens_irregular: "calculateCycleLengths [0, 24, 52, 84] = [24, 28, 32]"
  by (simp add: calculateCycleLengths_days del: calculateCycleLengths.simps(1))

lemma lens_same_day: "calculateCycleLengths [0, 0, 0, 0] = [0, 0, 0]"
  by (simp add: calculateCycleLengths_days del: calculateCycleLengths.simps(1))

lemma sqrt_16: "sqrt 16 = 4"
  using real_sqrt_abs [of 4] by simp

lemma stats_two_samples: "calculateCycleStats [28, 28] = \<lparr>average = 28, stdDev = 0\<rparr>"
  by (simp add: calculateCycleStats_def)

lemma stats_regular: "calculateCycleStats [28, 28, 28] = \<lparr>average = 28, stdDev = 0\<rparr>"
  by (simp add: calculateCycleStats_def)

lemma stats_near_regular: "calculateCycleStats [27, 28, 29] = \<lparr>average = 28, stdDev = 1\<rparr>"
  by (simp add: calculateCycleStats_def)

lemma stats_irregular: "calculateCycleStats [24, 28, 32] = \<lparr>average = 28, stdDev = 4\<rparr>"
  by (simp add: calculateCycleStats_def sqrt_16)

lemma stats_same_day: "calculateCycleStats [0, 0, 0] = \<lparr>average = 0, stdDev = 0\<rparr>"
  by (simp add: calculateCycleStats_def)

lemma ratio_regular: "deviation_ratio log_four_starts 90 = Fin 0"
  by (simp add: deviation_ratio_def starts_four lens_four stats_regular js_div_def
        del: calculateCycleLengths.simps)

lemma ratio_near_regular: "deviation_ratio log_near_regular 90 = Fin (1 / 28)"
  by (simp add: deviation_ratio_def starts_near_regular lens_near_regular stats_near_regular
        js_div_def del: calculateCycleLengths.simps)

lemma ratio_irregular: "deviation_ratio log_irregular 90 = Fin (1 / 7)"
  by (simp add: deviation_ratio_def starts_irregular lens_irregular stats_irregular
        js_div_def del: calculateCycleLengths.simps)

lemma ratio_same_day: "deviation_ratio log_same_day 90 = NaN"
  by (simp add: deviation_ratio_def starts_same_day lens_same_day stats_same_day
        js_div_def del: calculateCycleLengths.simps)

lemma conf_regular: "confidence (predictCycle tz log_four_starts profile_28_5 90 now) = Fin 0.95"
  by (simp add: predictCycle_def starts_four lens_four stats_regular Let_def
        js_div_def Math_round_def del: calculateCycleLengths.simps)

lemma conf_near_regular:
  "confidence (predictCycle tz log_near_regular profile_28_5 90 now) = Fin 0.95"
  by (simp add: predictCycle_def starts_near_regular lens_near_regular stats_near_regular
        Let_def js_div_def Math_round_def del: calculateCycleLengths.simps)

lemma conf_irregular: "confidence (predictCycle tz log_irregular profile_28_5 90 now) = Fin 0.93"
  by (simp add: predictCycle_def starts_irregular lens_irregular stats_irregular Let_def
        js_div_def Math_round_def del: calculateCycleLengths.simps)

text \<open>The additions of days in the zone of New York that the two February logs lead to.\<close>

lemma addDays_new_york:
  "addDays new_york_2024 (getTime 19780) 9 = 19789"
  "addDays new_york_2024 (getTime 19780) 15 = 19794"
  "addDays new_york_2024 (getTime 19762) 28 = 19790"
  "addDays new_york_2024 (getTime 19762) 32 = 19793"
  by (simp_all add: addDays_def LocalTime_def UTC_time_def isoDate_def new_york_2024_def
        getTime_def msPerDay_def Let_def)

lemma starts_february:
  "identifyCycleStarts (take 90 log_27_february) = [19780]"
  "identifyCycleStarts (take 90 log_9_february) = [19762]"
  by (simp_all add: identifyCycleStarts_def log_27_february_def log_9_february_def)

text \<open>
  Regular starts in general: three cycle starts 28 days apart are predicted as \<open>hybrid\<close>
  with confidence 0.8, four as \<open>historical\<close> with confidence 0.95, whatever the profile.
\<close>

lemma predictCycle_three_regular_starts:
  assumes "identifyCycleStarts (take m es) = [a, a + 28, a + 56]"
  shows "source (predictCycle tz es p m now) = hybrid"
    and "confidence (predictCycle tz es p m now) = Fin 0.8"
  using assms
  by (simp_all add: predictCycle_def Let_def calculateCycleLengths_days Math_round_def
        del: calculateCycleLengths.simps(1))

lemma predictCycle_four_regular_starts:
  assumes "identifyCycleStarts (take m es) = [a, a + 28, a + 56, a + 84]"
  shows "source (predictCycle tz es p m now) = historical"
    and "confidence (predictCycle tz es p m now) = Fin 0.95"
  using assms
  by (simp_all add: predictCycle_def Let_def calculateCycleLengths_days stats_regular
        js_div_def Math_round_def del: calculateCycleLengths.simps(1))

section \<open>Facts about the copies, the loop and the due check\<close>

text \<open>
  In a zone of a fixed offset \<open>addDays\<close> moves the UTC day of a time value by the number
  of days, and the projected dates are exact.
\<close>

lemma addDays_fixed_zone: "addDays (fixed_zone c) t days = isoDate t + days"
proof -
  have "((t + c) div msPerDay + days) * msPerDay + (t + c) mod msPerDay - c
          = t + days * msPerDay"
    by (simp add: algebra_simps)
  then show ?thesis
    by (simp add: addDays_def LocalTime_def UTC_time_def isoDate_def fixed_zone_def Let_def
          msPerDay_def)
qed

lemma predictCycle_exactness_fixed_zone:
  "next_period_end (predictCycle (fixed_zone c) es p m now)
     - next_period_start (predictCycle (fixed_zone c) es p m now) + 1 = period_length_days p
   \<and> fertility_window_end (predictCycle (fixed_zone c) es p m now)
       - fertility_window_start (predictCycle (fixed_zone c) es p m now) = 6"
  by (simp add: predictCycle_def Let_def addDays_fixed_zone split: prod.splits)

lemma calculateCycleStats_fn_eq: "calculateCycleStats_fn = calculateCycleStats"
  by (rule ext) (simp add: calculateCycleStats_fn_def calculateCycleStats_def)

lemma hasFlow_fn_eq: "hasFlow_fn = hasFlow"
  by (rule ext) (simp add: hasFlow_fn_def hasFlow_def)

lemma scanEntries_fn_eq: "scanEntries_fn es b acc = scanEntries es b acc"
  by (induction es arbitrary: b acc) (simp_all add: hasFlow_fn_eq)

lemma identifyCycleStarts_fn_eq: "identifyCycleStarts_fn = identifyCycleStarts"
  by (rule ext) (simp add: identifyCycleStarts_fn_def identifyCycleStarts_def scanEntries_fn_eq)

lemma calculateCycleLengths_fn_eq: "calculateCycleLengths_fn s = calculateCycleLengths s"
  by (induction s rule: calculateCycleLengths.induct) simp_all

lemma addDays_fn_eq: "addDays_fn = addDays"
  by (rule ext)+ (simp add: addDays_fn_def addDays_def)

lemma predictMultipleLoop_append:
  "predictMultipleLoop tz k es acc p now = acc @ predictionsFrom tz k es p now"
  by (induction k arbitrary: es acc) (simp_all add: Let_def)

lemma length_predictionsFrom: "length (predictionsFrom tz k es p now) = k"
  by (induction k arbitrary: es) simp_all

lemma entriesAt_Cons:
  "entriesAt es (q # qs) (Suc i)
     = entriesAt (\<lparr>entry_date = next_period_start q, flow_intensity = Some ''medium''\<rparr> # es)
         qs i"
  by (induction i) simp_all

lemma predictionsFrom_nth:
  "i < k \<Longrightarrow> predictionsFrom tz k es p now ! i
      = predictCycle tz (entriesAt es (predictionsFrom tz k es p now) i) p 90 now"
proof (induction k arbitrary: es i)
  case 0
  then show ?case by simp
next
  case (Suc k)
  show ?case
  proof (cases i)
    case 0
    then show ?thesis by simp
  next
    case (Suc j)
    with Suc.prems have "j < k" by simp
    from Suc.IH [OF this] Suc show ?thesis
      by (simp add: entriesAt_Cons del: entriesAt.simps)
  qed
qed

text \<open>
  The due check of an enabled \<open>period_start\<close> reminder, for every \<open>days_before\<close> but
  zero: due exactly on the day that lies \<open>days_before\<close> days (three when the field is
  absent) before the predicted start.
\<close>

lemma shouldSendReminder_period_start:
  assumes "enabled r" and "reminder_type r = ''period_start''"
    and "days_before (schedule_config r) \<noteq> Some 0"
  shows "shouldSendReminder r (Some p) today \<longleftrightarrow>
           today = cycle_start_date p
                     - (case days_before (schedule_config r) of None \<Rightarrow> 3 | Some d \<Rightarrow> d)"
  using assms
  by (auto simp add: shouldSendReminder_def num_or_def Let_def split: option.splits)

section \<open>The confidence model\<close>

text \<open>
  The source of a prediction follows the number of cycle-length samples, the detected
  cycle starts minus one: none gives \<open>profile_default\<close>, one or two give \<open>hybrid\<close>, three
  or more give \<open>historical\<close>.
\<close>

lemma predictCycle_source:
  "source (predictCycle tz es p m now) =
     (let n = length (identifyCycleStarts (take m es)) - 1
      in if n = 0 then profile_default else if n \<le> 2 then hybrid else historical)"
proof -
  let ?s = "identifyCycleStarts (take m es)"
  have len: "length (calculateCycleLengths ?s) = length ?s - 1"
    by (rule length_calculateCycleLengths)
  consider "length ?s - 1 = 0" | "1 \<le> length ?s - 1" "length ?s - 1 \<le> 2" | "3 \<le> length ?s - 1"
    by linarith
  then show ?thesis
  proof cases
    case 1
    then have "\<not> 2 \<le> length ?s" by arith
    with 1 show ?thesis by (simp add: predictCycle_def Let_def)
  next
    case 2
    then have "2 \<le> length ?s" "\<not> 3 \<le> length (calculateCycleLengths ?s)"
      using len by arith+
    with 2 show ?thesis by (simp add: predictCycle_def Let_def)
  next
    case 3
    then have "2 \<le> length ?s" "3 \<le> length (calculateCycleLengths ?s)"
      using len by arith+
    with 3 show ?thesis by (simp add: predictCycle_def Let_def)
  qed
qed

text \<open>
  C1. The claim: the source, the confidence and the predicted cycle length follow the
  number of cycle-length samples, and with three or more samples the confidence is
  \<open>clamp (1 - (stdDev / mean) * 0.5, 0.5, 0.95)\<close>, rounded to two decimal places. A clamp
  is a number between its bounds. The code computes \<open>stats.stdDev / stats.average\<close> with
  no guard and passes the result through \<open>Math.min\<close> and \<open>Math.max\<close>: on a log with four
  cycle starts on one date the three samples are zero, the quotient is \<open>0 / 0\<close>, and the
  confidence of the \<open>historical\<close> branch is \<open>NaN\<close>, the rounded clamp of no number.
  Every operation on this input is exact in binary floating point. The theorem evaluates
  \<open>predictCycle\<close> on such a log, in every time zone and at every time.
\<close>

theorem predictCycle_historical_nan:
  "length (calculateCycleLengths (identifyCycleStarts (take 90 log_same_day))) = 3
   \<and> source (predictCycle tz log_same_day profile_28_5 90 now) = historical
   \<and> confidence (predictCycle tz log_same_day profile_28_5 90 now) = NaN
   \<and> (\<forall>x. confidence (predictCycle tz log_same_day profile_28_5 90 now)
              \<noteq> Fin (real_of_int (Math_round (clamp x 0.5 0.95 * 100)) / 100))"
  by (simp add: predictCycle_def starts_same_day lens_same_day stats_same_day Let_def
        js_div_def del: calculateCycleLengths.simps)

section \<open>Exactness of the projected dates\<close>

text \<open>
  C2. The claim: for every input to \<open>predictCycle\<close> the returned dates satisfy
  \<open>next_period_end - next_period_start + 1 = period_length_days\<close>, and the fertility
  window ends six days after it starts. \<open>addDays\<close> adds the days to the local date and
  prints the UTC date, so a change of the zone's offset between two projected dates moves
  one of them by a day. The theorem evaluates \<open>predictCycle\<close> in the zone of New York for
  the profile with a period of five days. A single cycle start on 27 February 2024 gives
  a fertility window from 7 March (day 19789) to 12 March (day 19794), five days apart.
  A single cycle start on 9 February 2024 gives a period from 8 March (day 19790) to
  11 March (day 19793), four days long. In a zone of a fixed offset both equations hold
  (lemma \<open>predictCycle_exactness_fixed_zone\<close>).
\<close>

theorem predictCycle_exactness_new_york:
  "fertility_window_start (predictCycle new_york_2024 log_27_february profile_28_5 90 now)
     = 19789
   \<and> fertility_window_end (predictCycle new_york_2024 log_27_february profile_28_5 90 now)
     = 19794
   \<and> next_period_start (predictCycle new_york_2024 log_9_february profile_28_5 90 now)
     = 19790
   \<and> next_period_end (predictCycle new_york_2024 log_9_february profile_28_5 90 now)
     = 19793"
  by (simp add: predictCycle_def starts_february profile_28_5_def Let_def Math_round_def
        addDays_new_york)

section \<open>Three cycle starts\<close>

text \<open>
  C3. The claim: a log whose segmentation yields exactly three cycle starts, each 28 days
  apart, is predicted with source \<open>historical\<close> and confidence 0.95. The code counts
  cycle lengths, not cycle starts: three starts give two lengths, and the branch taken is
  \<open>hybrid\<close>. The theorem evaluates \<open>predictCycle\<close> on such a log: the source is
  \<open>hybrid\<close> and the confidence is 0.8.
\<close>

theorem predictCycle_three_starts_hybrid:
  "identifyCycleStarts (take 90 log_three_starts) = [0, 28, 56]
   \<and> source (predictCycle tz log_three_starts profile_28_5 90 now) = hybrid
   \<and> confidence (predictCycle tz log_three_starts profile_28_5 90 now) = Fin 0.8"
  by (simp add: predictCycle_def starts_three lens_three stats_two_samples Let_def
        Math_round_def del: calculateCycleLengths.simps)

section \<open>Bounds of the confidence\<close>

text \<open>
  C5. The claim: for every input the confidence lies between 0.5 and 0.95, and a mean of
  zero is guarded, the ratio being taken as zero. The code divides without a guard: on a
  log with four cycle starts on one date the three cycle lengths are zero, the ratio is
  \<open>0 / 0\<close>, and \<open>Math.min\<close>, \<open>Math.max\<close> and the rounding pass the \<open>NaN\<close> on. The
  theorem evaluates \<open>predictCycle\<close> on such a log: the confidence is \<open>NaN\<close>, which is
  within no bounds.
\<close>

theorem predictCycle_confidence_nan:
  "confidence (predictCycle tz log_same_day profile_28_5 90 now) = NaN
   \<and> \<not> confidence_in_bounds
         (confidence (predictCycle tz log_same_day profile_28_5 90 now))"
  by (simp add: predictCycle_def starts_same_day lens_same_day stats_same_day Let_def
        js_div_def confidence_in_bounds_def del: calculateCycleLengths.simps)

section \<open>Monotonicity of the confidence\<close>

text \<open>
  C6, as stated: for two inputs with the same sample count of at least three, a strictly
  greater ratio \<open>stdDev / mean\<close> gives a strictly smaller confidence. It fails where the
  clamp is active: cycle lengths 27, 28, 29 have a greater ratio than 28, 28, 28, and both
  logs have confidence 0.95.
\<close>

theorem confidence_strict_monotonicity_counterexample:
  "length (calculateCycleLengths (identifyCycleStarts (take 90 log_near_regular))) = 3
   \<and> length (calculateCycleLengths (identifyCycleStarts (take 90 log_four_starts))) = 3
   \<and> js_less (deviation_ratio log_four_starts 90) (deviation_ratio log_near_regular 90)
   \<and> \<not> js_less (confidence (predictCycle utc log_near_regular profile_28_5 90 0))
                (confidence (predictCycle utc log_four_starts profile_28_5 90 0))"
  by (simp add: conf_regular conf_near_regular ratio_regular ratio_near_regular
        starts_four starts_near_regular lens_four lens_near_regular
        del: calculateCycleLengths.simps)

text \<open>
  C6, amended: for two inputs with the same sample count of at least three, if the first
  input's ratio \<open>stdDev / mean\<close> is strictly greater than the second's, then the first
  input's confidence is less than or equal to the second's.
\<close>

theorem confidence_weakly_decreasing:
  assumes "length (calculateCycleLengths (identifyCycleStarts (take m1 es1))) = n"
    and "length (calculateCycleLengths (identifyCycleStarts (take m2 es2))) = n"
    and "3 \<le> n"
    and "js_less (deviation_ratio es2 m2) (deviation_ratio es1 m1)"
  shows "js_le (confidence (predictCycle tz1 es1 p1 m1 now1))
               (confidence (predictCycle tz2 es2 p2 m2 now2))"
proof -
  have "3 \<le> length (calculateCycleLengths (identifyCycleStarts (take m1 es1)))"
    and "3 \<le> length (calculateCycleLengths (identifyCycleStarts (take m2 es2)))"
    using assms(1-3) by simp_all
  then show ?thesis
    using clamped_antimono [OF assms(4)] by (simp only: confidence_historical)
qed

theorem confidence_weakly_decreasing_witness:
  "js_less (deviation_ratio log_four_starts 90) (deviation_ratio log_irregular 90)
   \<and> js_le (confidence (predictCycle utc log_irregular profile_28_5 90 0))
            (confidence (predictCycle utc log_four_starts profile_28_5 90 0))"
proof -
  have n1: "length (calculateCycleLengths (identifyCycleStarts (take 90 log_irregular))) = 3"
    by (simp add: starts_irregular lens_irregular del: calculateCycleLengths.simps)
  have n2: "length (calculateCycleLengths (identifyCycleStarts (take 90 log_four_starts))) = 3"
    by (simp add: starts_four lens_four del: calculateCycleLengths.simps)
  have r: "js_less (deviation_ratio log_four_starts 90) (deviation_ratio log_irregular 90)"
    by (simp add: ratio_regular ratio_irregular)
  have "js_le (confidence (predictCycle utc log_irregular profile_28_5 90 0))
              (confidence (predictCycle utc log_four_starts profile_28_5 90 0))"
    by (rule confidence_weakly_decreasing [OF n1 n2 _ r]) simp
  with r show ?thesis by simp
qed

section \<open>The segmenter and the order of the log\<close>

text \<open>
  C7, as stated: the segmenter gives the same cycle starts on every permutation of a log.
  The sort is stable and compares dates only, so two entries of one date stay in the
  caller's order: with a flow entry and a no-flow entry on day 1 and a flow entry on day 2,
  one order gives the starts 1 and 2, the other gives the start 1 alone.
\<close>

theorem identifyCycleStarts_permutation_counterexample:
  "mset [none_on 1, flow_on 1, flow_on 2] = mset [flow_on 1, none_on 1, flow_on 2]
   \<and> identifyCycleStarts [none_on 1, flow_on 1, flow_on 2]
        \<noteq> identifyCycleStarts [flow_on 1, none_on 1, flow_on 2]"
  by (simp add: identifyCycleStarts_def getTime_def)

text \<open>
  C7, amended: for every list of log entries with pairwise distinct dates and every
  permutation of that list, the segmenter produces the same list of cycle-start dates; it
  is a total function, so it raises no error.
\<close>

theorem identifyCycleStarts_permutation:
  assumes "mset ys = mset xs" and "distinct (map entry_date xs)"
  shows "identifyCycleStarts ys = identifyCycleStarts xs"
proof -
  have "length ys = length xs"
    using assms(1) by (rule mset_eq_length)
  then show ?thesis
    using sort_key_permutation [OF assms]
    by (simp add: identifyCycleStarts_def sort_key_getTime)
qed

theorem identifyCycleStarts_permutation_witness:
  "identifyCycleStarts [flow_on 28, none_on 1, flow_on 0] = [0, 28]"
proof -
  have "identifyCycleStarts [flow_on 28, none_on 1, flow_on 0]
          = identifyCycleStarts [flow_on 0, none_on 1, flow_on 28]"
    by (rule identifyCycleStarts_permutation) (simp_all add: flow_on_def none_on_def)
  then show ?thesis
    by (simp add: identifyCycleStarts_def getTime_def)
qed

section \<open>The two implementations\<close>

text \<open>
  C8. The two implementations of the prediction algorithm, \<open>predictCycle\<close> of the shared
  library and \<open>predictCycle\<close> of the serverless function, are extensionally equal: for
  every list of cycle entries, every profile and every \<open>maxEntriesToAnalyze\<close> (in the
  same time zone and with the same reading of the clock) they return the same result.
\<close>

theorem predictCycle_implementations_equal:
  "predictCycle_fn tz cycleEntries profile maxEntriesToAnalyze now
     = predictCycle tz cycleEntries profile maxEntriesToAnalyze now"
  unfolding predictCycle_fn_def predictCycle_def calculateCycleStats_fn_eq
    identifyCycleStarts_fn_eq calculateCycleLengths_fn_eq addDays_fn_eq
  by (rule refl)

section \<open>The due check of a period-start reminder\<close>

text \<open>
  C4. The claim: an enabled \<open>period_start\<close> reminder with a prediction is due exactly when
  today is \<open>days_before\<close> days before the predicted start, where a present
  \<open>days_before\<close> counts also when it is zero. The code reads the field with
  \<open>days_before || 3\<close>, which replaces a zero by three. The theorem evaluates the due
  check of a reminder with \<open>days_before = 0\<close> and a predicted start on day 10: it is not
  due on day 10, and it is due on day 7.
\<close>

theorem shouldSendReminder_days_before_zero:
  "\<not> shouldSendReminder (reminder_of ''period_start'' (Some 0) None)
        (Some (prediction_on 10 14)) 10
   \<and> shouldSendReminder (reminder_of ''period_start'' (Some 0) None)
        (Some (prediction_on 10 14)) 7"
  by (simp add: shouldSendReminder_def reminder_of_def prediction_on_def num_or_def)

section \<open>The message composer\<close>

text \<open>
  C9, as stated: whenever the schedule has a custom message set, the composer returns it
  verbatim. The test \<open>if (custom_message)\<close> is false for the empty string: a medication
  reminder whose custom message is set to the empty string gets the fixed text of its
  type.
\<close>

theorem generateReminderMessage_empty_custom_counterexample:
  "custom_message (schedule_config (reminder_of ''medication'' None (Some ''''))) = Some ''''
   \<and> generateReminderMessage (\<lambda>d. ''2024-12-25'')
         (reminder_of ''medication'' None (Some '''')) None
        = ''Time to take your medication.''"
  by (simp add: generateReminderMessage_def defaultMessage_def reminder_of_def)

text \<open>
  C9, amended: for every reminder whose schedule has a custom message set to a non-empty
  string, the composer returns that message verbatim, for every reminder type and every
  prediction (also none).
\<close>

theorem generateReminderMessage_custom:
  assumes "custom_message (schedule_config r) = Some s" and "s \<noteq> []"
  shows "generateReminderMessage render r p = s"
  using assms by (simp add: generateReminderMessage_def)

theorem generateReminderMessage_custom_witness:
  "generateReminderMessage (\<lambda>d. ''2024-12-25'')
     (reminder_of ''period_start'' (Some 3) (Some ''Buy supplies'')) None
     = ''Buy supplies''"
  by (rule generateReminderMessage_custom) (simp_all add: reminder_of_def)

section \<open>Predictions for several cycles\<close>

text \<open>
  C10. For every list of cycle entries, every profile and every number \<open>n\<close> of cycles,
  \<open>predictMultipleCycles\<close> returns exactly \<open>n\<close> predictions, and prediction number \<open>i\<close>
  is \<open>predictCycle\<close> of the log \<open>entriesAt es ps i\<close>: the caller's log for the first,
  and for each later one the previous log with a synthetic medium-flow entry, dated at the
  previous prediction's \<open>next_period_start\<close>, in front.
\<close>

theorem predictMultipleCycles_correct:
  "length (predictMultipleCycles tz es p n now) = n
   \<and> (\<forall>i<n. predictMultipleCycles tz es p n now ! i
              = predictCycle tz (entriesAt es (predictMultipleCycles tz es p n now) i) p 90 now)"
  by (simp add: predictMultipleCycles_def predictMultipleLoop_append length_predictionsFrom
        predictionsFrom_nth)

theorem predictMultipleCycles_correct_witness:
  "length (predictMultipleCycles utc [] profile_28_5 2 (getTime 100)) = 2
   \<and> predictMultipleCycles utc [] profile_28_5 2 (getTime 100) ! 0
       = predictCycle utc [] profile_28_5 90 (getTime 100)
   \<and> predictMultipleCycles utc [] profile_28_5 2 (getTime 100) ! Suc 0
       = predictCycle utc [\<lparr>entry_date = 128, flow_intensity = Some ''medium''\<rparr>]
           profile_28_5 90 (getTime 100)"
proof -
  let ?ps = "predictMultipleCycles utc [] profile_28_5 2 (getTime 100)"
  note t = predictMultipleCycles_correct [of utc "[]" profile_28_5 2 "getTime 100"]
  from t have len: "length ?ps = 2" by simp
  from t have n0: "?ps ! 0 = predictCycle utc (entriesAt [] ?ps 0) profile_28_5 90 (getTime 100)"
    by simp
  from t have n1:
    "?ps ! Suc 0 = predictCycle utc (entriesAt [] ?ps (Suc 0)) profile_28_5 90 (getTime 100)"
    by simp
  have first: "?ps ! 0 = predictCycle utc [] profile_28_5 90 (getTime 100)"
    using n0 by simp
  have "next_period_start (predictCycle utc [] profile_28_5 90 (getTime 100)) = 128"
    by (simp add: predictCycle_def identifyCycleStarts_def profile_28_5_def utc_def
          addDays_fixed_zone isoDate_def getTime_def msPerDay_def Let_def)
  then have "entriesAt [] ?ps (Suc 0)
               = [\<lparr>entry_date = 128, flow_intensity = Some ''medium''\<rparr>]"
    using first by simp
  with len first n1 show ?thesis by simp
qed

end
